theory Spec2Isabelle
  imports Complex_Main
begin

section \<open>Text and byte strings\<close>

text \<open>
  A Python \<open>str\<close> is modelled as a \<open>string\<close> whose characters are the code points
  0..255; a Python \<open>bytes\<close> value is a list of 8-bit characters as well. The two
  notions of white space are the ones of \<open>str.strip\<close> / the pattern \<open>\s\<close> on text, and
  of \<open>bytes.strip\<close> on bytes.
\<close>

type_synonym bytes = "char list"

definition is_space :: "char \<Rightarrow> bool" where
  "is_space c = (of_char c \<in> {9::nat, 10, 11, 12, 13, 28, 29, 30, 31, 32, 133, 160})"

definition is_bspace :: "char \<Rightarrow> bool" where
  "is_bspace c = (of_char c \<in> {9::nat, 10, 11, 12, 13, 32})"

definition lower_char :: "char \<Rightarrow> char" where
  "lower_char c =
     (let n = (of_char c :: nat)
      in if (65 \<le> n \<and> n \<le> 90) \<or> (192 \<le> n \<and> n \<le> 222 \<and> n \<noteq> 215)
         then char_of (n + 32) else c)"

definition lower :: "string \<Rightarrow> string" where
  "lower s = map lower_char s"

definition strip_with :: "(char \<Rightarrow> bool) \<Rightarrow> string \<Rightarrow> string" where
  "strip_with p s = rev (dropWhile p (rev (dropWhile p s)))"

definition rstrip_with :: "(char \<Rightarrow> bool) \<Rightarrow> string \<Rightarrow> string" where
  "rstrip_with p s = rev (dropWhile p (rev s))"

definition strip :: "string \<Rightarrow> string" where
  "strip s = strip_with is_space s"

definition bstrip :: "bytes \<Rightarrow> bytes" where
  "bstrip s = strip_with is_bspace s"



text \<open>\<open>a or b\<close> on optional strings, where \<open>None\<close> and the empty string are falsy.\<close>

definition truthy :: "string option \<Rightarrow> bool" where
  "truthy v = (case v of None \<Rightarrow> False | Some s \<Rightarrow> s \<noteq> [])"

definition or_else :: "string option \<Rightarrow> string \<Rightarrow> string" where
  "or_else v d = (case v of None \<Rightarrow> d | Some s \<Rightarrow> (if s = [] then d else s))"

section \<open>Persona policy (ai-guide)\<close>

text \<open>
  \<open>_persona_temperature\<close> and \<open>_persona_or_default\<close>. Python floats are modelled as
  real numbers.
\<close>

definition persona_temperature :: "real \<Rightarrow> string option \<Rightarrow> real" where
  "persona_temperature base persona =
     (let p = strip (lower (or_else persona []))
      in if p = ''formal'' then max (1 / 10) (base - 15 / 100)
         else if p = ''humorous'' then min 1 (base + 4 / 10)
         else min 1 (base + 2 / 10))"

definition persona_or_default :: "string option \<Rightarrow> string" where
  "persona_or_default p0 =
     (let p = strip (lower (or_else p0 []))
      in if p \<in> set [''friendly'', ''formal'', ''humorous''] then p else ''friendly'')"

section \<open>Landmark names (vision-recognize)\<close>

text \<open>A catalog entry is a JSON object with string values; \<open>LANDMARKS\<close> is a list of them.\<close>

type_synonym landmark = "string \<rightharpoonup> string"

fun localized_name :: "landmark list \<Rightarrow> string \<Rightarrow> string \<Rightarrow> string" where
  "localized_name [] landmark_id lang = landmark_id"
| "localized_name (lm # lms) landmark_id lang =
     (if lm ''id'' = Some landmark_id
      then (case lm (''name_'' @ lang) of
              Some n \<Rightarrow> n
            | None \<Rightarrow> (case lm ''name_ru'' of Some n \<Rightarrow> n | None \<Rightarrow> landmark_id))
      else localized_name lms landmark_id lang)"

section \<open>Citations (ai-guide)\<close>

text \<open>
  The retrieval response is a nested dictionary; every key the extractor reads may be
  absent, which is \<open>None\<close> here. \<open>.get(k, {})\<close> and \<open>.get(k, [])\<close> read an absent key as
  the empty dictionary or list.
\<close>

record s3_location =
  s3_uri :: "string option"

record web_location =
  web_url :: "string option"

record location =
  s3Location :: "s3_location option"
  webLocation :: "web_location option"

record content =
  content_text :: "string option"

record reference =
  ref_location :: "location option"
  ref_content :: "content option"

record provenance =
  prov_retrievedReferences :: "reference list option"

record generated_part =
  part_citations :: "provenance list option"

record citation_record =
  generatedResponsePart :: "generated_part option"
  cit_retrievedReferences :: "reference list option"

record rag_response =
  output_text :: "string option"
  citations :: "citation_record list option"
  retrievedReferences :: "reference list option"

record citation =
  uri :: string
  snippet :: string

definition get_list :: "'a list option \<Rightarrow> 'a list" where
  "get_list v = (case v of None \<Rightarrow> [] | Some xs \<Rightarrow> xs)"

definition ref_s3_uri :: "reference \<Rightarrow> string option" where
  "ref_s3_uri r =
     (case ref_location r of None \<Rightarrow> None
      | Some l \<Rightarrow> (case s3Location l of None \<Rightarrow> None | Some s \<Rightarrow> s3_uri s))"

definition ref_web_url :: "reference \<Rightarrow> string option" where
  "ref_web_url r =
     (case ref_location r of None \<Rightarrow> None
      | Some l \<Rightarrow> (case webLocation l of None \<Rightarrow> None | Some w \<Rightarrow> web_url w))"

definition ref_uri :: "reference \<Rightarrow> string" where
  "ref_uri r = (if truthy (ref_s3_uri r) then the (ref_s3_uri r) else or_else (ref_web_url r) [])"

definition ref_frag :: "reference \<Rightarrow> string" where
  "ref_frag r =
     (case ref_content r of None \<Rightarrow> []
      | Some c \<Rightarrow> (case content_text c of None \<Rightarrow> [] | Some t \<Rightarrow> t))"

text \<open>The body shared by the three innermost loops: append a citation when the URI is non-empty.\<close>

definition add_ref :: "citation list \<Rightarrow> reference \<Rightarrow> citation list" where
  "add_ref cites r =
     (if ref_uri r \<noteq> [] then cites @ [\<lparr>uri = ref_uri r, snippet = take 600 (ref_frag r)\<rparr>]
      else cites)"

definition add_refs :: "citation list \<Rightarrow> reference list \<Rightarrow> citation list" where
  "add_refs cites refs = foldl add_ref cites refs"

definition add_prov :: "citation list \<Rightarrow> provenance \<Rightarrow> citation list" where
  "add_prov cites prov = add_refs cites (get_list (prov_retrievedReferences prov))"

definition add_record :: "citation list \<Rightarrow> citation_record \<Rightarrow> citation list" where
  "add_record cites c =
     (let provs = (case generatedResponsePart c of None \<Rightarrow> [] | Some p \<Rightarrow> get_list (part_citations p));
          cites1 = foldl add_prov cites provs
      in add_refs cites1 (get_list (cit_retrievedReferences c)))"

definition extract_citations :: "rag_response \<Rightarrow> citation list" where
  "extract_citations rag =
     (let cites = foldl add_record [] (get_list (citations rag));
          cites2 = (if cites = [] \<and> retrievedReferences rag \<noteq> None
                    then add_refs cites (get_list (retrievedReferences rag)) else cites)
      in take 8 cites2)"

text \<open>The citations of a list of references, in order: the specification's view.\<close>

definition cites_of :: "reference list \<Rightarrow> citation list" where
  "cites_of refs =
     map (\<lambda>r. \<lparr>uri = ref_uri r, snippet = take 600 (ref_frag r)\<rparr>) (filter (\<lambda>r. ref_uri r \<noteq> []) refs)"

definition record_cites :: "citation_record \<Rightarrow> citation list" where
  "record_cites c =
     concat (map (\<lambda>p. cites_of (get_list (prov_retrievedReferences p)))
               (case generatedResponsePart c of None \<Rightarrow> [] | Some p \<Rightarrow> get_list (part_citations p)))
     @ cites_of (get_list (cit_retrievedReferences c))"

definition nested_cites :: "rag_response \<Rightarrow> citation list" where
  "nested_cites rag = concat (map record_cites (get_list (citations rag)))"

section \<open>Regular expressions\<close>

text \<open>
  The patterns of the two handlers are values of a small regular-expression type, matched
  as Python's \<open>re\<close> does: by backtracking, leftmost first, with a greedy quantifier trying
  the longest repetition first and an alternative trying its left branch first. A matcher
  returns every way to match at the current position, in the order in which backtracking
  would find them; the head of that list is the match Python reports. The quantifiers of
  all patterns here range over single-character classes.
\<close>

record mstate =
  prev :: "char option"
  rest :: string
  caps :: "(nat \<times> string) list"

datatype re =
    Cls "char \<Rightarrow> bool"
  | Many "char \<Rightarrow> bool" nat "nat option" bool
  | Seq re re
  | Alt re re
  | Eps
  | Grp nat re
  | Bos
  | Bol
  | Eos

text \<open>
  \<open>Many p lo hi greedy\<close> is a class \<open>p\<close> under the quantifier \<open>{lo,hi}\<close> (\<open>hi = None\<close>:
  unbounded), greedy or lazy. \<open>Bos\<close> is \<open>^\<close> without MULTILINE, \<open>Bol\<close> is \<open>^\<close> with
  MULTILINE, \<open>Eos\<close> is \<open>$\<close> without MULTILINE.
\<close>

fun many :: "(char \<Rightarrow> bool) \<Rightarrow> nat \<Rightarrow> nat option \<Rightarrow> bool \<Rightarrow> char option \<Rightarrow> string
    \<Rightarrow> (char option \<times> string) list" where
  "many p lo hi greedy pv [] = (if lo = 0 then [(pv, [])] else [])"
| "many p lo hi greedy pv (c # cs) =
     (let stop = (if lo = 0 then [(pv, c # cs)] else []);
          more = (if p c \<and> hi \<noteq> Some 0
                  then many p (lo - 1) (map_option (\<lambda>n. n - 1) hi) greedy (Some c) cs else [])
      in if greedy then more @ stop else stop @ more)"

fun matches :: "re \<Rightarrow> mstate \<Rightarrow> mstate list" where
  "matches (Cls p) st =
     (case rest st of [] \<Rightarrow> []
      | c # cs \<Rightarrow> if p c then [st\<lparr>prev := Some c, rest := cs\<rparr>] else [])"
| "matches (Many p lo hi greedy) st =
     map (\<lambda>(pv, r). st\<lparr>prev := pv, rest := r\<rparr>) (many p lo hi greedy (prev st) (rest st))"
| "matches (Seq a b) st = concat (map (matches b) (matches a st))"
| "matches (Alt a b) st = matches a st @ matches b st"
| "matches Eps st = [st]"
| "matches (Grp n a) st =
     map (\<lambda>st'. st'\<lparr>caps := (n, take (length (rest st) - length (rest st')) (rest st)) # caps st'\<rparr>)
       (matches a st)"
| "matches Bos st = (if prev st = None then [st] else [])"
| "matches Bol st = (if prev st = None \<or> prev st = Some (CHR 0x0A) then [st] else [])"
| "matches Eos st = (if rest st = [] \<or> rest st = [CHR 0x0A] then [st] else [])"


definition lit_ci :: "string \<Rightarrow> re" where
  "lit_ci s = foldr (\<lambda>c r. Seq (Cls (\<lambda>x. lower_char x = lower_char c)) r) s Eps"


fun alts :: "re list \<Rightarrow> re" where
  "alts [] = Eps"
| "alts [r] = r"
| "alts (r # rs) = Alt r (alts rs)"

definition opt :: "char \<Rightarrow> re" where
  "opt c = Many (\<lambda>x. x = c) 0 (Some 1) True"






text \<open>
  \<open>pattern.sub(repl, s)\<close> for a literal replacement: every match, found from the left and
  not overlapping, is replaced. After an empty match the next character is copied.
\<close>

function sub_from :: "re \<Rightarrow> string \<Rightarrow> char option \<Rightarrow> string \<Rightarrow> string" where
  "sub_from r repl pv s =
     (case matches r \<lparr>prev = pv, rest = s, caps = []\<rparr> of
        st # _ \<Rightarrow>
          (if length (rest st) < length s then repl @ sub_from r repl (prev st) (rest st)
           else repl @ (case s of [] \<Rightarrow> [] | c # cs \<Rightarrow> c # sub_from r repl (Some c) cs))
      | [] \<Rightarrow> (case s of [] \<Rightarrow> [] | c # cs \<Rightarrow> c # sub_from r repl (Some c) cs))"
  by pat_completeness auto
termination
  by (relation "measure (\<lambda>(r, repl, pv, s). length s)") auto

definition re_sub :: "re \<Rightarrow> string \<Rightarrow> string \<Rightarrow> string" where
  "re_sub r repl s = sub_from r repl None s"

declare sub_from.simps [simp del]

section \<open>Landmark classification (vision-recognize)\<close>

datatype error = ValueError string | KeyError string | CollaboratorError string

subsection \<open>Floating-point values\<close>

text \<open>
  The confidence is a Python float that \<open>float\<close> reads from a token of digits and dots:
  a non-negative IEEE double or positive infinity. A finite double is modelled by the
  real number it denotes. \<open>to_double\<close> rounds a non-negative real to the nearest double,
  a tie to the even one; it is the conversion that \<open>float\<close> applies to a decimal token
  and that the interpreter applies to the literals \<open>0.7\<close> and \<open>0.92\<close>.
\<close>

datatype pyfloat = Finite real | PosInf

definition round_half_even :: "real \<Rightarrow> int" where
  "round_half_even y =
     (let f = \<lfloor>y\<rfloor>
      in if y - of_int f < 1 / 2 then f
         else if 1 / 2 < y - of_int f then f + 1
         else if even f then f else f + 1)"

fun halvings :: "nat \<Rightarrow> real \<Rightarrow> nat" where
  "halvings n x = (if n = 0 \<or> x < 2 then 0 else Suc (halvings (n - 1) (x / 2)))"

fun doublings :: "nat \<Rightarrow> real \<Rightarrow> nat" where
  "doublings n x = (if n = 0 \<or> 1 \<le> x then 0 else Suc (doublings (n - 1) (2 * x)))"

declare halvings.simps [simp del] doublings.simps [simp del]

definition pow2 :: "int \<Rightarrow> real" where
  "pow2 e = (if 0 \<le> e then 2 ^ nat e else 1 / 2 ^ nat (- e))"

text \<open>
  The binary exponent of a positive real, kept within the range of a double: the
  exponents of the normal doubles run from -1022 to 1023, and a value of exponent 1024 or
  more overflows.
\<close>

definition double_exponent :: "real \<Rightarrow> int" where
  "double_exponent x = (if 1 \<le> x then int (halvings 1024 x) else - int (doublings 1022 x))"

definition to_double :: "real \<Rightarrow> pyfloat" where
  "to_double x =
     (if x \<le> 0 then Finite 0
      else let ulp = pow2 (double_exponent x - 52);
               r = of_int (round_half_even (x / ulp)) * ulp
           in if pow2 1024 \<le> r then PosInf else Finite r)"






subsection \<open>The classifier\<close>















subsection \<open>The handler's treatment of a detection\<close>


















section \<open>Properties\<close>

lemma add_refs_eq: "add_refs cites refs = cites @ cites_of refs"
  unfolding add_refs_def cites_of_def
  by (induction refs arbitrary: cites) (simp_all add: add_ref_def)

lemma foldl_add_prov: "foldl add_prov cites provs =
    cites @ concat (map (\<lambda>p. cites_of (get_list (prov_retrievedReferences p))) provs)"
  by (induction provs arbitrary: cites) (simp_all add: add_prov_def add_refs_eq)

lemma add_record_eq: "add_record cites c = cites @ record_cites c"
  by (simp add: add_record_def record_cites_def foldl_add_prov add_refs_eq)

lemma foldl_add_record: "foldl add_record cites cs = cites @ concat (map record_cites cs)"
  by (induction cs arbitrary: cites) (simp_all add: add_record_eq)


subsection \<open>Persona temperature\<close>

lemma norm_formal: "strip (lower ''formal'') = ''formal''"
  by (simp add: strip_def strip_with_def lower_def lower_char_def is_space_def)

lemma norm_humorous: "strip (lower ''humorous'') = ''humorous''"
  by (simp add: strip_def strip_with_def lower_def lower_char_def is_space_def)

lemma norm_friendly: "strip (lower ''friendly'') = ''friendly''"
  by (simp add: strip_def strip_with_def lower_def lower_char_def is_space_def)

lemma norm_unknown: "strip (lower ''unknown'') = ''unknown''"
  by (simp add: strip_def strip_with_def lower_def lower_char_def is_space_def)

lemma norm_FORMAL: "strip (lower ''FORMAL'') = ''formal''"
  by code_simp

lemma norm_Humorous_spaced: "strip (lower '' Humorous '') = ''humorous''"
  by code_simp

text \<open>
  C8, as the claim states it: every tag other than \<open>formal\<close> and \<open>humorous\<close> would get
  \<open>min(1.0, base + 0.2)\<close>. The code lower-cases and trims the tag first, so the tag
  \<open>FORMAL\<close> gets the formal temperature: with base 0.3 it is 0.15 and not 0.50.
\<close>

theorem persona_temperature_counterexample:
  "\<not> (\<forall>base p. p \<noteq> Some ''formal'' \<and> p \<noteq> Some ''humorous''
         \<longrightarrow> persona_temperature base p = min 1 (base + 2 / 10))"
proof
  assume "\<forall>base p. p \<noteq> Some ''formal'' \<and> p \<noteq> Some ''humorous''
         \<longrightarrow> persona_temperature base p = min 1 (base + 2 / 10)"
  then have "persona_temperature (3 / 10) (Some ''FORMAL'') = min 1 (3 / 10 + 2 / 10)"
    by simp
  then show False
    by (simp add: persona_temperature_def or_else_def norm_FORMAL)
qed

text \<open>
  C8, amended: the tag is lower-cased and trimmed (an absent tag counts as empty); the
  temperature is \<open>max(0.1, base - 0.15)\<close> when the result is \<open>formal\<close>,
  \<open>min(1.0, base + 0.4)\<close> when it is \<open>humorous\<close>, and \<open>min(1.0, base + 0.2)\<close> for every
  other tag, \<open>friendly\<close> among them. With base 0.3 the values are 0.15 for \<open>formal\<close>, 0.70
  for \<open>humorous\<close>, and 0.50 for \<open>friendly\<close> and for an unrecognised tag. The result
  depends on the base and the tag only.
\<close>

theorem persona_temperature_spec:
  "(strip (lower (or_else p [])) = ''formal''
      \<longrightarrow> persona_temperature base p = max (1 / 10) (base - 15 / 100))
   \<and> (strip (lower (or_else p [])) = ''humorous''
      \<longrightarrow> persona_temperature base p = min 1 (base + 4 / 10))
   \<and> (strip (lower (or_else p [])) \<noteq> ''formal'' \<and> strip (lower (or_else p [])) \<noteq> ''humorous''
      \<longrightarrow> persona_temperature base p = min 1 (base + 2 / 10))
   \<and> persona_temperature base (Some ''formal'') = max (1 / 10) (base - 15 / 100)
   \<and> persona_temperature base (Some ''humorous'') = min 1 (base + 4 / 10)
   \<and> persona_temperature base (Some ''friendly'') = min 1 (base + 2 / 10)
   \<and> persona_temperature base None = min 1 (base + 2 / 10)
   \<and> persona_temperature (3 / 10) (Some ''formal'') = 15 / 100
   \<and> persona_temperature (3 / 10) (Some ''humorous'') = 70 / 100
   \<and> persona_temperature (3 / 10) (Some ''friendly'') = 50 / 100
   \<and> persona_temperature (3 / 10) (Some ''unknown'') = 50 / 100"
proof -
  have general: "persona_temperature base p =
      (if strip (lower (or_else p [])) = ''formal'' then max (1 / 10) (base - 15 / 100)
       else if strip (lower (or_else p [])) = ''humorous'' then min 1 (base + 4 / 10)
       else min 1 (base + 2 / 10))" for base p
    by (simp add: persona_temperature_def Let_def)
  have empty: "strip (lower []) = []"
    by (simp add: strip_def strip_with_def lower_def)
  show ?thesis
    by (simp add: general or_else_def norm_formal norm_humorous norm_friendly norm_unknown empty)
qed

theorem persona_temperature_spec_witness:
  "persona_temperature (3 / 10) (Some ''FORMAL'') = 15 / 100
   \<and> persona_temperature (3 / 10) (Some '' Humorous '') = 70 / 100
   \<and> persona_temperature (3 / 10) (Some ''unknown'') = 50 / 100"
proof -
  have f: "strip (lower (or_else (Some ''FORMAL'') [])) = ''formal''"
    by (simp add: or_else_def norm_FORMAL)
  have h: "strip (lower (or_else (Some '' Humorous '') [])) = ''humorous''"
    by (simp add: or_else_def norm_Humorous_spaced)
  have u: "strip (lower (or_else (Some ''unknown'') [])) \<noteq> ''formal''
      \<and> strip (lower (or_else (Some ''unknown'') [])) \<noteq> ''humorous''"
    by (simp add: or_else_def norm_unknown)
  from f persona_temperature_spec [of "Some ''FORMAL''" "3 / 10"]
  have "persona_temperature (3 / 10) (Some ''FORMAL'') = 15 / 100" by simp
  moreover from h persona_temperature_spec [of "Some '' Humorous ''" "3 / 10"]
  have "persona_temperature (3 / 10) (Some '' Humorous '') = 70 / 100" by simp
  moreover from u persona_temperature_spec [of "Some ''unknown''" "3 / 10"]
  have "persona_temperature (3 / 10) (Some ''unknown'') = 50 / 100" by simp
  ultimately show ?thesis by simp
qed

subsection \<open>Landmark names\<close>

lemma localized_name_absent:
  "\<forall>lm \<in> set lms. lm ''id'' \<noteq> Some i \<Longrightarrow> localized_name lms i lang = i"
  by (induction lms) simp_all

lemma localized_name_first:
  "\<forall>lm \<in> set pre. lm ''id'' \<noteq> Some i \<Longrightarrow> lm ''id'' = Some i \<Longrightarrow>
   localized_name (pre @ lm # post) i lang =
     (case lm (''name_'' @ lang) of Some n \<Rightarrow> n
      | None \<Rightarrow> (case lm ''name_ru'' of Some n \<Rightarrow> n | None \<Rightarrow> i))"
  by (induction pre) simp_all

text \<open>
  C10: for the first catalog entry whose id is the requested one, \<open>localized_name\<close>
  returns its name for the language when it has one, else its Russian name when it has
  one, else the id; for an id that no catalog entry carries it returns the id. The
  function is total.
\<close>

theorem localized_name_spec:
  "((\<forall>lm \<in> set lms. lm ''id'' \<noteq> Some i) \<longrightarrow> localized_name lms i lang = i)
   \<and> ((\<forall>e \<in> set pre. e ''id'' \<noteq> Some i) \<and> lm ''id'' = Some i \<longrightarrow>
        (\<forall>n. lm (''name_'' @ lang) = Some n \<longrightarrow> localized_name (pre @ lm # post) i lang = n)
        \<and> (\<forall>n. lm (''name_'' @ lang) = None \<and> lm ''name_ru'' = Some n
               \<longrightarrow> localized_name (pre @ lm # post) i lang = n)
        \<and> (lm (''name_'' @ lang) = None \<and> lm ''name_ru'' = None
               \<longrightarrow> localized_name (pre @ lm # post) i lang = i))"
  by (auto simp: localized_name_absent localized_name_first)

theorem localized_name_spec_witness:
  "localized_name [[''id'' \<mapsto> ''khan'', ''name_ru'' \<mapsto> ''Han'']] ''bayterek'' ''en'' = ''bayterek''
   \<and> localized_name ([[''id'' \<mapsto> ''khan'']] @ [''id'' \<mapsto> ''bayterek'', ''name_en'' \<mapsto> ''Baiterek'', ''name_ru'' \<mapsto> ''B'']
         # []) ''bayterek'' ''en'' = ''Baiterek''
   \<and> localized_name ([[''id'' \<mapsto> ''khan'']] @ [''id'' \<mapsto> ''bayterek'', ''name_ru'' \<mapsto> ''B'']
         # []) ''bayterek'' ''en'' = ''B''
   \<and> localized_name ([[''id'' \<mapsto> ''khan'']] @ [''id'' \<mapsto> ''bayterek''] # []) ''bayterek'' ''en'' = ''bayterek''"
  using localized_name_spec [of "[[''id'' \<mapsto> ''khan'', ''name_ru'' \<mapsto> ''Han'']]" "''bayterek''" "''en''"
      "[[''id'' \<mapsto> ''khan'']]" "[''id'' \<mapsto> ''bayterek'', ''name_en'' \<mapsto> ''Baiterek'', ''name_ru'' \<mapsto> ''B'']" "[]"]
    localized_name_spec [of "[]" "''bayterek''" "''en''"
      "[[''id'' \<mapsto> ''khan'']]" "[''id'' \<mapsto> ''bayterek'', ''name_ru'' \<mapsto> ''B'']" "[]"]
    localized_name_spec [of "[]" "''bayterek''" "''en''"
      "[[''id'' \<mapsto> ''khan'']]" "[''id'' \<mapsto> ''bayterek'']" "[]"]
  by simp

subsection \<open>Citations\<close>

lemma extract_citations_eq:
  "extract_citations rag =
     take 8 (if nested_cites rag = [] \<and> retrievedReferences rag \<noteq> None
             then cites_of (get_list (retrievedReferences rag)) else nested_cites rag)"
proof -
  have walk: "foldl add_record [] (get_list (citations rag)) = nested_cites rag"
    by (simp add: nested_cites_def foldl_add_record)
  show ?thesis
  proof (cases "nested_cites rag = [] \<and> retrievedReferences rag \<noteq> None")
    case True
    then show ?thesis
      unfolding extract_citations_def walk Let_def by (simp add: add_refs_eq)
  next
    case False
    then show ?thesis
      unfolding extract_citations_def walk Let_def by auto
  qed
qed

text \<open>
  C6: the extractor accumulates, record by record and in order, the citations of the
  nested generated-part references and then of the record's flat references; it reads the
  top-level list only when that walk found nothing; references without a URI are skipped;
  at most 8 citations are returned. With only a top-level list the result is the
  citations of that list (capped at 8); with nested citations an empty top-level list is
  ignored.
\<close>

theorem extract_citations_spec:
  "extract_citations rag =
     take 8 (if nested_cites rag = [] \<and> retrievedReferences rag \<noteq> None
             then cites_of (get_list (retrievedReferences rag)) else nested_cites rag)
   \<and> length (extract_citations rag) \<le> 8
   \<and> (\<forall>c \<in> set (extract_citations rag). uri c \<noteq> [])
   \<and> (citations rag = None \<and> retrievedReferences rag = Some refs
        \<longrightarrow> extract_citations rag = take 8 (cites_of refs))
   \<and> (nested_cites rag \<noteq> [] \<longrightarrow> extract_citations rag = take 8 (nested_cites rag))"
proof -
  have uris: "\<forall>c \<in> set (cites_of rs). uri c \<noteq> []" for rs
    by (auto simp: cites_of_def)
  have rec_uris: "\<forall>c \<in> set (record_cites r). uri c \<noteq> []" for r
    using uris by (auto simp: record_cites_def)
  have nested_uris: "\<forall>c \<in> set (nested_cites rag). uri c \<noteq> []"
    using rec_uris by (auto simp: nested_cites_def)
  have "\<forall>c \<in> set (extract_citations rag). uri c \<noteq> []"
    unfolding extract_citations_eq using uris nested_uris
    by (auto dest!: in_set_takeD)
  moreover have "citations rag = None \<Longrightarrow> nested_cites rag = []"
    by (simp add: nested_cites_def get_list_def)
  ultimately show ?thesis
    by (auto simp: extract_citations_eq get_list_def)
qed


definition ref_with_s3 :: reference where
  "ref_with_s3 =
     \<lparr>ref_location = Some \<lparr>s3Location = Some \<lparr>s3_uri = Some ''s3://kb/a.md''\<rparr>, webLocation = None\<rparr>,
      ref_content = Some \<lparr>content_text = Some ''Baiterek is open daily.''\<rparr>\<rparr>"

definition ref_with_web :: reference where
  "ref_with_web =
     \<lparr>ref_location = Some \<lparr>s3Location = Some \<lparr>s3_uri = Some []\<rparr>,
                           webLocation = Some \<lparr>web_url = Some ''https://astana.kz''\<rparr>\<rparr>,
      ref_content = None\<rparr>"

definition ref_without_uri :: reference where
  "ref_without_uri = \<lparr>ref_location = None, ref_content = Some \<lparr>content_text = Some ''lost''\<rparr>\<rparr>"

definition rag_top_only :: rag_response where
  "rag_top_only =
     \<lparr>output_text = Some ''x'', citations = None,
      retrievedReferences = Some [ref_with_s3, ref_without_uri, ref_with_web]\<rparr>"

definition rag_nested :: rag_response where
  "rag_nested =
     \<lparr>output_text = Some ''x'',
      citations = Some [\<lparr>generatedResponsePart =
                          Some \<lparr>part_citations = Some [\<lparr>prov_retrievedReferences = Some [ref_with_web]\<rparr>]\<rparr>,
                        cit_retrievedReferences = Some [ref_without_uri, ref_with_s3]\<rparr>],
      retrievedReferences = Some []\<rparr>"

lemma ref_uri_examples:
  "ref_uri ref_with_s3 = ''s3://kb/a.md''" "ref_uri ref_with_web = ''https://astana.kz''"
  "ref_uri ref_without_uri = []"
  by (simp_all add: ref_uri_def ref_s3_uri_def ref_web_url_def truthy_def or_else_def
      ref_with_s3_def ref_with_web_def ref_without_uri_def)

lemma ref_frag_examples:
  "ref_frag ref_with_s3 = ''Baiterek is open daily.''" "ref_frag ref_with_web = []"
  by (simp_all add: ref_frag_def ref_with_s3_def ref_with_web_def)

lemma nested_cites_rag_nested:
  "nested_cites rag_nested =
     [\<lparr>uri = ''https://astana.kz'', snippet = []\<rparr>,
      \<lparr>uri = ''s3://kb/a.md'', snippet = ''Baiterek is open daily.''\<rparr>]"
  by (simp add: nested_cites_def record_cites_def cites_of_def get_list_def rag_nested_def
      ref_uri_examples ref_frag_examples)

theorem extract_citations_spec_witness:
  "extract_citations rag_top_only =
     [\<lparr>uri = ''s3://kb/a.md'', snippet = ''Baiterek is open daily.''\<rparr>,
      \<lparr>uri = ''https://astana.kz'', snippet = []\<rparr>]
   \<and> extract_citations rag_nested =
     [\<lparr>uri = ''https://astana.kz'', snippet = []\<rparr>,
      \<lparr>uri = ''s3://kb/a.md'', snippet = ''Baiterek is open daily.''\<rparr>]"
proof -
  have top: "citations rag_top_only = None \<and>
      retrievedReferences rag_top_only = Some [ref_with_s3, ref_without_uri, ref_with_web]"
    by (simp add: rag_top_only_def)
  have nonempty: "nested_cites rag_nested \<noteq> []"
    by (simp add: nested_cites_rag_nested)
  from top extract_citations_spec [of rag_top_only "[ref_with_s3, ref_without_uri, ref_with_web]"]
  have "extract_citations rag_top_only = take 8 (cites_of [ref_with_s3, ref_without_uri, ref_with_web])"
    by blast
  moreover from nonempty extract_citations_spec [of rag_nested "[]"]
  have "extract_citations rag_nested = take 8 (nested_cites rag_nested)"
    by blast
  ultimately show ?thesis
    by (simp add: cites_of_def ref_uri_examples ref_frag_examples nested_cites_rag_nested)
qed

subsection \<open>Landmark resolution\<close>
















subsection \<open>Detection confidence\<close>













lemma double_exponent_seven_tenths: "double_exponent (7 / 10) = - 1"
  by (simp add: double_exponent_def doublings.simps)

lemma to_double_seven_tenths: "to_double (7 / 10) = Finite (6305039478318694 / 2 ^ 53)"
  by (simp add: to_double_def double_exponent_seven_tenths pow2_def round_half_even_def)




















end
